theory Spec2Isabelle
  imports Main
begin

section \<open>Entity store\<close>

text \<open>
  The rows of the relational store, with the attributes the services read. Identifiers
  are integers, and so are dates and times (as instants). Several tables have an \<open>id\<close>
  and a \<open>userId\<close> column, so these field names carry the table's name as a prefix; the
  other fields keep their names.
\<close>

record enrollment =
  enrollment_id :: int
  enrollment_userId :: int
  Address :: string

datatype ticketStatus = RESERVED | PAID

record ticketType =
  ticketType_id :: int
  isRemote :: bool
  includesHotel :: bool
  price :: int

text \<open>A ticket as the ticket repository returns it: with its ticket type embedded.\<close>

record ticket =
  ticket_id :: int
  ticket_enrollmentId :: int
  status :: ticketStatus
  ticketTypeId :: int
  TicketType :: ticketType

record booking =
  booking_id :: int
  booking_userId :: int
  booking_roomId :: int

record hotel =
  hotel_id :: int
  hotel_name :: string

record room =
  room_id :: int
  room_hotelId :: int

record activity =
  activity_id :: int
  day :: int
  startsAt :: int
  endsAt :: int
  placeId :: int

record userActivity =
  userActivity_id :: int
  userActivity_userId :: int
  activityId :: int
  createdAt :: int
  updatedAt :: int

text \<open>
  Results of queries with \<open>include\<close>: the row with every field it has, and the related
  rows in one more field. That field is \<open>Rooms\<close> in both hotel results; the second one
  is written with a prime here, as the two have different types.
\<close>

record hotelWithRooms = hotel +
  Rooms :: "room list"

record roomWithBooking = room +
  Booking :: "booking list"

record hotelWithRoomsAndBooking = hotel +
  Rooms' :: "roomWithBooking list"

text \<open>The object \<open>{...activity, userSubscribed}\<close> that \<open>getActivities\<close> builds.\<close>

record activityWithUser = activity +
  userSubscribed :: bool

text \<open>
  The tables. Each is a list, in the order in which the store returns its rows.
  \<open>userActivitiesSeq\<close> is the next identifier the store assigns to a registration.
\<close>

record store =
  enrollments :: "enrollment list"
  tickets :: "ticket list"
  bookings :: "booking list"
  hotels :: "hotel list"
  rooms :: "room list"
  activities :: "activity list"
  userActivities :: "userActivity list"
  userActivitiesSeq :: int

text \<open>Every repository function is one access to the store; the world records them.\<close>

datatype query =
    FindWithAddressByUserId int
  | FindTicketByEnrollmentId int
  | FindByUserId int
  | FindHotels
  | FindRoomsByHotelId int
  | FindAllHotelsWithRooms
  | FindAllActivities
  | FindUserActivities int
  | RegisterInActivity int int

record world =
  db :: store
  now :: int
  queries :: "query list"

definition issue :: "query \<Rightarrow> world \<Rightarrow> world" where
  "issue q w = w\<lparr>queries := queries w @ [q]\<rparr>"

text \<open>
  The errors of the services, and \<open>ValueOutOfRangeError\<close>: the error (P2020) with which
  the store's client rejects a value that does not fit the column it is compared with.
\<close>

datatype error =
    NotFoundError
  | CannotListHotelsError
  | CannotListActivities
  | ConflictError
  | BadRequestError
  | ValueOutOfRangeError

section \<open>Repositories\<close>

subsection \<open>Hotel repository\<close>

text \<open>
  \<open>prisma.hotel.findMany()\<close> returns every row; \<open>findFirst\<close> with \<open>where: {id}\<close> the
  first row with that id, or null; \<open>include\<close> adds the rows that reference the row.

  The \<open>id\<close> column of a hotel is a 32-bit signed integer. \<open>findRoomsByHotelId\<close> passes
  its argument to the query as it is, with no check of its own, and the client throws for
  an id that does not fit the column instead of answering null.
\<close>

definition inIntRange :: "int \<Rightarrow> bool" where
  "inIntRange n \<longleftrightarrow> - 2147483648 \<le> n \<and> n \<le> 2147483647"

definition includeRooms :: "store \<Rightarrow> hotel \<Rightarrow> hotelWithRooms" where
  "includeRooms s h =
     hotel.extend h (hotelWithRooms.fields (filter (\<lambda>r. room_hotelId r = hotel_id h) (rooms s)))"

definition includeBooking :: "store \<Rightarrow> room \<Rightarrow> roomWithBooking" where
  "includeBooking s r =
     room.extend r (roomWithBooking.fields (filter (\<lambda>b. booking_roomId b = room_id r) (bookings s)))"

definition includeRoomsBooking :: "store \<Rightarrow> hotel \<Rightarrow> hotelWithRoomsAndBooking" where
  "includeRoomsBooking s h =
     hotel.extend h (hotelWithRoomsAndBooking.fields
       (map (includeBooking s) (filter (\<lambda>r. room_hotelId r = hotel_id h) (rooms s))))"

definition findHotels :: "world \<Rightarrow> hotel list \<times> world" where
  "findHotels w = (hotels (db w), issue FindHotels w)"

definition findRoomsByHotelId ::
  "int \<Rightarrow> world \<Rightarrow> (error + hotelWithRooms option) \<times> world" where
  "findRoomsByHotelId hotelId w =
     (if inIntRange hotelId
      then Inr (map_option (includeRooms (db w))
                  (find (\<lambda>h. hotel_id h = hotelId) (hotels (db w))))
      else Inl ValueOutOfRangeError,
      issue (FindRoomsByHotelId hotelId) w)"

definition findAllHotelsWithRooms :: "world \<Rightarrow> hotelWithRoomsAndBooking list \<times> world" where
  "findAllHotelsWithRooms w =
     (map (includeRoomsBooking (db w)) (hotels (db w)), issue FindAllHotelsWithRooms w)"

subsection \<open>Enrollment, ticket and booking repositories\<close>

text \<open>
  Modelled from the spec: the enrollment repository is missing from the sources.
  \<open>findEnrollmentWithAddressByUser(userId) -> Enrollment | absent\<close>.
\<close>

definition findWithAddressByUserId :: "int \<Rightarrow> world \<Rightarrow> enrollment option \<times> world" where
  "findWithAddressByUserId userId w =
     (find (\<lambda>e. enrollment_userId e = userId) (enrollments (db w)),
      issue (FindWithAddressByUserId userId) w)"

text \<open>
  Modelled from the spec: the ticket repository is missing from the sources.
  \<open>findTicketByEnrollment(enrollmentId) -> Ticket(with embedded TicketType) | absent\<close>.
\<close>

definition findTicketByEnrollmentId :: "int \<Rightarrow> world \<Rightarrow> ticket option \<times> world" where
  "findTicketByEnrollmentId enrollmentId w =
     (find (\<lambda>t. ticket_enrollmentId t = enrollmentId) (tickets (db w)),
      issue (FindTicketByEnrollmentId enrollmentId) w)"

text \<open>
  Modelled from the spec: the booking repository is missing from the sources.
  \<open>findBookingByUser(userId) -> Booking | absent\<close>.
\<close>

definition findByUserId :: "int \<Rightarrow> world \<Rightarrow> booking option \<times> world" where
  "findByUserId userId w =
     (find (\<lambda>b. booking_userId b = userId) (bookings (db w)),
      issue (FindByUserId userId) w)"

subsection \<open>Activities repository\<close>

text \<open>
  Modelled from the spec: the activities repository is missing from the sources.
  \<open>findAllActivities() -> sequence<Activity>\<close>, the full activity catalog.
\<close>

definition findAllActivities :: "world \<Rightarrow> activity list \<times> world" where
  "findAllActivities w = (activities (db w), issue FindAllActivities w)"

text \<open>
  Modelled from the spec: the activities repository is missing from the sources.
  \<open>findUserActivityRegistrations(userId) -> sequence<ActivityRegistration>\<close>, the
  activity registrations belonging to \<open>userId\<close>.
\<close>

definition findUserActivities :: "int \<Rightarrow> world \<Rightarrow> userActivity list \<times> world" where
  "findUserActivities userId w =
     (filter (\<lambda>r. userActivity_userId r = userId) (userActivities (db w)),
      issue (FindUserActivities userId) w)"

text \<open>
  Modelled from the spec: the activities repository is missing from the sources.
  \<open>insertActivityRegistration(userId, activityId) -> ActivityRegistration\<close>: inserts a
  registration row \<open>(userId, activityId)\<close> with a server-assigned id and timestamps.
  It fails with BadRequest if \<open>activityId\<close> does not reference an existing activity
  (testable property 7 says so of every call with such an \<open>activityId\<close>, so this check
  comes first), and with Conflict if a registration for this \<open>userId\<close> already exists.
  A failed call persists no row.
\<close>

definition registerInActivity :: "int \<Rightarrow> int \<Rightarrow> world \<Rightarrow> (error + userActivity) \<times> world" where
  "registerInActivity userId actId w =
     (let w1 = issue (RegisterInActivity userId actId) w;
          s = db w1
      in if \<not> list_ex (\<lambda>a. activity_id a = actId) (activities s) then (Inl BadRequestError, w1)
         else if list_ex (\<lambda>r. userActivity_userId r = userId) (userActivities s)
           then (Inl ConflictError, w1)
         else
           (let row = \<lparr>userActivity_id = userActivitiesSeq s, userActivity_userId = userId,
                        activityId = actId, createdAt = now w1, updatedAt = now w1\<rparr>
            in (Inr row,
                w1\<lparr>db := s\<lparr>userActivities := userActivities s @ [row],
                              userActivitiesSeq := userActivitiesSeq s + 1\<rparr>\<rparr>)))"

section \<open>Hotel service\<close>

definition listHotels :: "int \<Rightarrow> world \<Rightarrow> (error + unit) \<times> world" where
  "listHotels userId w =
     (let (enrollment, w1) = findWithAddressByUserId userId w
      in case enrollment of
           None \<Rightarrow> (Inl NotFoundError, w1)
         | Some e \<Rightarrow>
             (let (ticket, w2) = findTicketByEnrollmentId (enrollment_id e) w1
              in if (case ticket of
                       None \<Rightarrow> True
                     | Some t \<Rightarrow> status t = RESERVED \<or> isRemote (TicketType t)
                                  \<or> \<not> includesHotel (TicketType t))
                 then (Inl CannotListHotelsError, w2)
                 else (Inr (), w2)))"

definition getHotels :: "int \<Rightarrow> world \<Rightarrow> (error + hotel list) \<times> world" where
  "getHotels userId w =
     (case listHotels userId w of
        (Inl err, w1) \<Rightarrow> (Inl err, w1)
      | (Inr _, w1) \<Rightarrow> (let (hotels, w2) = findHotels w1 in (Inr hotels, w2)))"

definition getHotelsWithRooms :: "int \<Rightarrow> int \<Rightarrow> world \<Rightarrow> (error + hotelWithRooms) \<times> world" where
  "getHotelsWithRooms userId hotelId w =
     (case listHotels userId w of
        (Inl err, w1) \<Rightarrow> (Inl err, w1)
      | (Inr _, w1) \<Rightarrow>
          (let (hotel, w2) = findRoomsByHotelId hotelId w1
           in case hotel of
                Inl err \<Rightarrow> (Inl err, w2)
              | Inr None \<Rightarrow> (Inl NotFoundError, w2)
              | Inr (Some h) \<Rightarrow> (Inr h, w2)))"

definition getAllHotelsWithRooms ::
  "int \<Rightarrow> world \<Rightarrow> (error + hotelWithRoomsAndBooking list) \<times> world" where
  "getAllHotelsWithRooms userId w =
     (case listHotels userId w of
        (Inl err, w1) \<Rightarrow> (Inl err, w1)
      | (Inr _, w1) \<Rightarrow> (let (hotels, w2) = findAllHotelsWithRooms w1 in (Inr hotels, w2)))"

section \<open>Activities service\<close>

definition listActivities :: "int \<Rightarrow> world \<Rightarrow> (error + unit) \<times> world" where
  "listActivities userId w =
     (let (enrollment, w1) = findWithAddressByUserId userId w
      in case enrollment of
           None \<Rightarrow> (Inl NotFoundError, w1)
         | Some e \<Rightarrow>
             (let (ticket, w2) = findTicketByEnrollmentId (enrollment_id e) w1
              in if (case ticket of
                       None \<Rightarrow> True
                     | Some t \<Rightarrow> status t = RESERVED \<or> isRemote (TicketType t))
                 then (Inl CannotListActivities, w2)
                 else
                   (let (booking, w3) = findByUserId userId w2
                    in case booking of
                         None \<Rightarrow> (Inl NotFoundError, w3)
                       | Some _ \<Rightarrow> (Inr (), w3))))"

text \<open>
  The callback of \<open>activities.map\<close>: the \<open>for\<close> loop over \<open>userActivities\<close> returns at
  the first registration of the activity, and the code after the loop is the empty list's
  case.
\<close>

fun withUser :: "activity \<Rightarrow> userActivity list \<Rightarrow> activityWithUser" where
  "withUser activity [] = activity.extend activity (activityWithUser.fields False)"
| "withUser activity (userActivity # rest) =
     (if activity_id activity = activityId userActivity
      then activity.extend activity (activityWithUser.fields True)
      else withUser activity rest)"

definition getActivities :: "int \<Rightarrow> world \<Rightarrow> (error + activityWithUser list) \<times> world" where
  "getActivities userId w =
     (case listActivities userId w of
        (Inl err, w1) \<Rightarrow> (Inl err, w1)
      | (Inr _, w1) \<Rightarrow>
          (let (activities, w2) = findAllActivities w1;
               (userActivities, w3) = findUserActivities userId w2;
               activitiesWithUser = map (\<lambda>activity. withUser activity userActivities) activities
           in (Inr activitiesWithUser, w3)))"

definition createUserActivity :: "int \<Rightarrow> int \<Rightarrow> world \<Rightarrow> (error + userActivity) \<times> world" where
  "createUserActivity userId actId w =
     (case listActivities userId w of
        (Inl err, w1) \<Rightarrow> (Inl err, w1)
      | (Inr _, w1) \<Rightarrow> registerInActivity userId actId w1)"

section \<open>A sample store\<close>

text \<open>
  Four kinds of user: user 1 has a paid in-person ticket with hotel and a booking; user 2
  a paid in-person ticket without hotel, a booking and one activity registration; user 3
  a paid in-person ticket with hotel but no booking; user 4 has no enrollment.
\<close>

definition sampleStore :: store where
  "sampleStore =
     \<lparr>enrollments =
        [\<lparr>enrollment_id = 10, enrollment_userId = 1, Address = ''Rua A, 1''\<rparr>,
         \<lparr>enrollment_id = 20, enrollment_userId = 2, Address = ''Rua B, 2''\<rparr>,
         \<lparr>enrollment_id = 30, enrollment_userId = 3, Address = ''Rua C, 3''\<rparr>],
      tickets =
        [\<lparr>ticket_id = 1, ticket_enrollmentId = 10, status = PAID, ticketTypeId = 1,
          TicketType = \<lparr>ticketType_id = 1, isRemote = False, includesHotel = True, price = 600\<rparr>\<rparr>,
         \<lparr>ticket_id = 2, ticket_enrollmentId = 20, status = PAID, ticketTypeId = 2,
          TicketType = \<lparr>ticketType_id = 2, isRemote = False, includesHotel = False, price = 250\<rparr>\<rparr>,
         \<lparr>ticket_id = 3, ticket_enrollmentId = 30, status = PAID, ticketTypeId = 1,
          TicketType = \<lparr>ticketType_id = 1, isRemote = False, includesHotel = True, price = 600\<rparr>\<rparr>],
      bookings =
        [\<lparr>booking_id = 1, booking_userId = 1, booking_roomId = 100\<rparr>,
         \<lparr>booking_id = 2, booking_userId = 2, booking_roomId = 200\<rparr>],
      hotels =
        [\<lparr>hotel_id = 1, hotel_name = ''Driven Resort''\<rparr>,
         \<lparr>hotel_id = 2, hotel_name = ''Driven Palace''\<rparr>],
      rooms =
        [\<lparr>room_id = 100, room_hotelId = 1\<rparr>,
         \<lparr>room_id = 101, room_hotelId = 1\<rparr>,
         \<lparr>room_id = 200, room_hotelId = 2\<rparr>],
      activities =
        [\<lparr>activity_id = 7, day = 1, startsAt = 9, endsAt = 10, placeId = 1\<rparr>,
         \<lparr>activity_id = 8, day = 1, startsAt = 10, endsAt = 12, placeId = 2\<rparr>],
      userActivities =
        [\<lparr>userActivity_id = 1, userActivity_userId = 2, activityId = 8,
          createdAt = 500, updatedAt = 500\<rparr>],
      userActivitiesSeq = 2\<rparr>"

definition sampleWorld :: world where
  "sampleWorld = \<lparr>db = sampleStore, now = 1000, queries = []\<rparr>"

section \<open>Facts about the guards, the annotation and the repositories\<close>

lemmas repo_defs =
  findWithAddressByUserId_def findTicketByEnrollmentId_def findByUserId_def
  findHotels_def findRoomsByHotelId_def findAllHotelsWithRooms_def
  findAllActivities_def findUserActivities_def issue_def

lemmas sample_defs = sampleWorld_def sampleStore_def

lemma withUser_eq:
  "withUser a rs =
     activity.extend a (activityWithUser.fields (\<exists>r\<in>set rs. activity_id a = activityId r))"
  by (induction rs) auto

lemma truncate_withUser: "activity.truncate (withUser a rs) = a"
  by (cases a) (simp add: withUser_eq activity.defs activityWithUser.defs)

lemma listHotels_db: "db (snd (listHotels userId w)) = db w"
  by (simp add: listHotels_def repo_defs split: option.splits)

lemma listActivities_db: "db (snd (listActivities userId w)) = db w"
  by (simp add: listActivities_def repo_defs split: option.splits)

lemma listActivities_now: "now (snd (listActivities userId w)) = now w"
  by (simp add: listActivities_def repo_defs split: option.splits)

lemma listHotels_fst_db: "db w' = db w \<Longrightarrow> fst (listHotels userId w') = fst (listHotels userId w)"
  by (simp add: listHotels_def repo_defs split: option.splits)

lemma getActivities_Inr:
  assumes "fst (listActivities userId w) = Inr ()"
  shows "fst (getActivities userId w) =
           Inr (map (\<lambda>a. withUser a (filter (\<lambda>r. userActivity_userId r = userId)
                                         (userActivities (db w)))) (activities (db w)))"
proof -
  obtain w1 where g: "listActivities userId w = (Inr (), w1)"
    using assms by (cases "listActivities userId w") auto
  have "db w1 = db w"
    using listActivities_db [of userId w] g by simp
  then show ?thesis
    by (simp add: getActivities_def g repo_defs)
qed

lemma listHotels_queries:
  "\<exists>qs. queries (snd (listHotels userId w)) = queries w @ qs
        \<and> (\<forall>uid. FindByUserId uid \<notin> set qs)"
  by (simp add: listHotels_def repo_defs split: option.splits)

lemma registerInActivity_db_cases:
  "registerInActivity userId actId w =
     (if \<not> list_ex (\<lambda>a. activity_id a = actId) (activities (db w))
      then (Inl BadRequestError, issue (RegisterInActivity userId actId) w)
      else if list_ex (\<lambda>r. userActivity_userId r = userId) (userActivities (db w))
      then (Inl ConflictError, issue (RegisterInActivity userId actId) w)
      else (Inr \<lparr>userActivity_id = userActivitiesSeq (db w), userActivity_userId = userId,
                  activityId = actId, createdAt = now w, updatedAt = now w\<rparr>,
            (issue (RegisterInActivity userId actId) w)
              \<lparr>db := (db w)\<lparr>userActivities := userActivities (db w) @
                  [\<lparr>userActivity_id = userActivitiesSeq (db w), userActivity_userId = userId,
                    activityId = actId, createdAt = now w, updatedAt = now w\<rparr>],
                 userActivitiesSeq := userActivitiesSeq (db w) + 1\<rparr>\<rparr>))"
  by (simp add: registerInActivity_def issue_def Let_def)

lemma createUserActivity_eligible:
  assumes "fst (listActivities userId w) = Inr ()"
  shows "createUserActivity userId actId w =
           registerInActivity userId actId (snd (listActivities userId w))"
  using assms by (cases "listActivities userId w") (auto simp: createUserActivity_def)

lemma find_None_list_ex: "find P xs = None \<longleftrightarrow> \<not> list_ex P xs"
  by (induction xs) auto

lemma find_Some_first: "find P xs = Some x \<Longrightarrow> x \<in> set xs \<and> P x"
  by (induction xs) (auto split: if_splits)

lemma getHotelsWithRooms_eligible:
  assumes "fst (listHotels userId w) = Inr ()"
  shows "fst (getHotelsWithRooms userId hotelId w) =
           (if inIntRange hotelId
            then (case find (\<lambda>h. hotel_id h = hotelId) (hotels (db w)) of
                    None \<Rightarrow> Inl NotFoundError
                  | Some h \<Rightarrow> Inr (includeRooms (db w) h))
            else Inl ValueOutOfRangeError)"
proof -
  obtain w1 where g: "listHotels userId w = (Inr (), w1)"
    using assms by (cases "listHotels userId w") auto
  have "db w1 = db w"
    using listHotels_db [of userId w] g by simp
  then show ?thesis
    by (simp add: getHotelsWithRooms_def g findRoomsByHotelId_def split: option.splits)
qed

lemma getHotels_db: "db (snd (getHotels userId w)) = db w"
proof -
  obtain r v where g: "listHotels userId w = (r, v)"
    by (cases "listHotels userId w")
  have "db v = db w"
    using listHotels_db [of userId w] g by simp
  then show ?thesis
    by (cases r) (simp_all add: getHotels_def g findHotels_def issue_def)
qed

lemma getHotelsWithRooms_db: "db (snd (getHotelsWithRooms userId hotelId w)) = db w"
proof -
  obtain r v where g: "listHotels userId w = (r, v)"
    by (cases "listHotels userId w")
  have "db v = db w"
    using listHotels_db [of userId w] g by simp
  then show ?thesis
    by (cases r)
      (simp_all add: getHotelsWithRooms_def g findRoomsByHotelId_def issue_def
        split: option.splits)
qed

lemma getAllHotelsWithRooms_db: "db (snd (getAllHotelsWithRooms userId w)) = db w"
proof -
  obtain r v where g: "listHotels userId w = (r, v)"
    by (cases "listHotels userId w")
  have "db v = db w"
    using listHotels_db [of userId w] g by simp
  then show ?thesis
    by (cases r) (simp_all add: getAllHotelsWithRooms_def g findAllHotelsWithRooms_def issue_def)
qed

lemma getHotels_fst_db:
  assumes "db w' = db w"
  shows "fst (getHotels userId w') = fst (getHotels userId w)"
proof -
  obtain r v where g: "listHotels userId w = (r, v)"
    by (cases "listHotels userId w")
  obtain r' v' where g': "listHotels userId w' = (r', v')"
    by (cases "listHotels userId w'")
  have "r' = r"
    using listHotels_fst_db [OF assms, of userId] g g' by simp
  moreover have "db v' = db v"
    using listHotels_db [of userId w] listHotels_db [of userId w'] g g' assms by simp
  ultimately show ?thesis
    by (simp add: getHotels_def g g' findHotels_def split: sum.splits)
qed

lemma getHotelsWithRooms_fst_db:
  assumes "db w' = db w"
  shows "fst (getHotelsWithRooms userId hotelId w') = fst (getHotelsWithRooms userId hotelId w)"
proof -
  obtain r v where g: "listHotels userId w = (r, v)"
    by (cases "listHotels userId w")
  obtain r' v' where g': "listHotels userId w' = (r', v')"
    by (cases "listHotels userId w'")
  have "r' = r"
    using listHotels_fst_db [OF assms, of userId] g g' by simp
  moreover have "db v' = db v"
    using listHotels_db [of userId w] listHotels_db [of userId w'] g g' assms by simp
  ultimately show ?thesis
    by (simp add: getHotelsWithRooms_def g g' findRoomsByHotelId_def
        split: sum.splits option.splits)
qed

lemma getAllHotelsWithRooms_fst_db:
  assumes "db w' = db w"
  shows "fst (getAllHotelsWithRooms userId w') = fst (getAllHotelsWithRooms userId w)"
proof -
  obtain r v where g: "listHotels userId w = (r, v)"
    by (cases "listHotels userId w")
  obtain r' v' where g': "listHotels userId w' = (r', v')"
    by (cases "listHotels userId w'")
  have "r' = r"
    using listHotels_fst_db [OF assms, of userId] g g' by simp
  moreover have "db v' = db v"
    using listHotels_db [of userId w] listHotels_db [of userId w'] g g' assms by simp
  ultimately show ?thesis
    by (simp add: getAllHotelsWithRooms_def g g' findAllHotelsWithRooms_def split: sum.splits)
qed

section \<open>The activity catalog\<close>

text \<open>
  C1. For a user who passes the activity guard, \<open>getActivities\<close> returns as many
  elements as the catalog has activities, the element at each position has the id of the
  catalog's activity at that position, and its \<open>userSubscribed\<close> flag is true exactly
  when some registration of that user has this activity's id. The user may have no, one or
  many registrations.
\<close>

theorem getActivities_userSubscribed:
  assumes "fst (listActivities userId w) = Inr ()"
  shows "\<exists>xs. fst (getActivities userId w) = Inr xs
            \<and> length xs = length (activities (db w))
            \<and> (\<forall>i < length xs.
                  activity_id (xs ! i) = activity_id (activities (db w) ! i)
                  \<and> (userSubscribed (xs ! i) \<longleftrightarrow>
                       (\<exists>r \<in> set (userActivities (db w)).
                          userActivity_userId r = userId
                          \<and> activityId r = activity_id (activities (db w) ! i))))"
proof -
  let ?rs = "filter (\<lambda>r. userActivity_userId r = userId) (userActivities (db w))"
  let ?xs = "map (\<lambda>a. withUser a ?rs) (activities (db w))"
  have "fst (getActivities userId w) = Inr ?xs"
    by (rule getActivities_Inr [OF assms])
  moreover have "length ?xs = length (activities (db w))"
    by simp
  moreover have "activity_id (?xs ! i) = activity_id (activities (db w) ! i)
      \<and> (userSubscribed (?xs ! i) \<longleftrightarrow>
           (\<exists>r \<in> set (userActivities (db w)).
              userActivity_userId r = userId
              \<and> activityId r = activity_id (activities (db w) ! i)))"
    if "i < length ?xs" for i
    using that by (auto simp: withUser_eq activity.defs activityWithUser.defs)
  ultimately show ?thesis
    by blast
qed

theorem getActivities_userSubscribed_witness:
  "fst (listActivities 2 sampleWorld) = Inr ()
   \<and> (\<exists>xs. fst (getActivities 2 sampleWorld) = Inr xs
          \<and> length xs = 2 \<and> \<not> userSubscribed (xs ! 0) \<and> userSubscribed (xs ! 1))"
proof -
  have h: "fst (listActivities 2 sampleWorld) = Inr ()"
    by (simp add: listActivities_def repo_defs sample_defs)
  obtain xs where r: "fst (getActivities 2 sampleWorld) = Inr xs"
    and l: "length xs = length (activities (db sampleWorld))"
    and s: "\<forall>i < length xs.
              activity_id (xs ! i) = activity_id (activities (db sampleWorld) ! i)
              \<and> (userSubscribed (xs ! i) \<longleftrightarrow>
                   (\<exists>r \<in> set (userActivities (db sampleWorld)).
                      userActivity_userId r = 2
                      \<and> activityId r = activity_id (activities (db sampleWorld) ! i)))"
    using getActivities_userSubscribed [OF h] by blast
  have l2: "length xs = 2"
    using l by (simp add: sample_defs)
  have "\<not> userSubscribed (xs ! 0)"
    using s [rule_format, of 0] l2 by (simp add: sample_defs)
  moreover have "userSubscribed (xs ! 1)"
    using s [rule_format, of 1] l2 by (simp add: sample_defs)
  ultimately show ?thesis
    using h r l2 by blast
qed

text \<open>
  C10. For a user who passes the activity guard, the output of \<open>getActivities\<close> is the
  catalog in the store's order: dropping the added field gives the catalog back, and each
  element is its catalog row extended with \<open>userSubscribed\<close> and nothing else.
\<close>

theorem getActivities_keeps_catalog:
  assumes "fst (listActivities userId w) = Inr ()"
  shows "\<exists>xs. fst (getActivities userId w) = Inr xs
            \<and> map activity.truncate xs = activities (db w)
            \<and> (\<forall>i < length xs.
                  xs ! i = activity.extend (activities (db w) ! i)
                             (activityWithUser.fields (userSubscribed (xs ! i))))"
proof -
  let ?rs = "filter (\<lambda>r. userActivity_userId r = userId) (userActivities (db w))"
  let ?xs = "map (\<lambda>a. withUser a ?rs) (activities (db w))"
  have "fst (getActivities userId w) = Inr ?xs"
    by (rule getActivities_Inr [OF assms])
  moreover have "map activity.truncate ?xs = activities (db w)"
    by (simp add: truncate_withUser comp_def)
  moreover have "?xs ! i = activity.extend (activities (db w) ! i)
                             (activityWithUser.fields (userSubscribed (?xs ! i)))"
    if "i < length ?xs" for i
    using that by (simp add: withUser_eq activity.defs activityWithUser.defs)
  ultimately show ?thesis
    by blast
qed

theorem getActivities_keeps_catalog_witness:
  "fst (listActivities 2 sampleWorld) = Inr ()
   \<and> (\<exists>xs. fst (getActivities 2 sampleWorld) = Inr xs
          \<and> map activity.truncate xs = activities sampleStore)"
proof -
  have h: "fst (listActivities 2 sampleWorld) = Inr ()"
    by (simp add: listActivities_def repo_defs sample_defs)
  have d: "db sampleWorld = sampleStore"
    by (simp add: sampleWorld_def)
  show ?thesis
    using h getActivities_keeps_catalog [OF h] unfolding d by blast
qed

section \<open>The eligibility guards\<close>

text \<open>
  C2. For a user with an enrollment, the hotel guard fails with \<open>CannotListHotelsError\<close>
  exactly when the enrollment has no ticket, or the ticket is reserved, or its type is
  remote, or its type does not include the hotel. Otherwise the guard succeeds and each of
  the three hotel operations goes on to its query; when the guard fails, each of them
  fails with the same error.
\<close>

theorem listHotels_forbidden_iff:
  assumes "fst (findWithAddressByUserId userId w) = Some e"
  shows "(fst (listHotels userId w) = Inl CannotListHotelsError \<longleftrightarrow>
            (fst (findTicketByEnrollmentId (enrollment_id e) w) = None
             \<or> (\<exists>t. fst (findTicketByEnrollmentId (enrollment_id e) w) = Some t
                   \<and> (status t = RESERVED \<or> isRemote (TicketType t)
                        \<or> \<not> includesHotel (TicketType t)))))
       \<and> (fst (listHotels userId w) \<noteq> Inl CannotListHotelsError \<longrightarrow>
            fst (listHotels userId w) = Inr ()
            \<and> fst (getHotels userId w) = Inr (hotels (db w))
            \<and> fst (getHotelsWithRooms userId hotelId w) =
                 (case fst (findRoomsByHotelId hotelId w) of
                    Inl err \<Rightarrow> Inl err
                  | Inr None \<Rightarrow> Inl NotFoundError
                  | Inr (Some h) \<Rightarrow> Inr h)
            \<and> fst (getAllHotelsWithRooms userId w) = Inr (fst (findAllHotelsWithRooms w)))
       \<and> (fst (listHotels userId w) = Inl CannotListHotelsError \<longrightarrow>
            fst (getHotels userId w) = Inl CannotListHotelsError
            \<and> fst (getHotelsWithRooms userId hotelId w) = Inl CannotListHotelsError
            \<and> fst (getAllHotelsWithRooms userId w) = Inl CannotListHotelsError)"
  using assms
  by (auto simp: listHotels_def getHotels_def getHotelsWithRooms_def
      getAllHotelsWithRooms_def repo_defs split: option.splits)

theorem listHotels_forbidden_iff_witness:
  "fst (findWithAddressByUserId 2 sampleWorld) =
     Some \<lparr>enrollment_id = 20, enrollment_userId = 2, Address = ''Rua B, 2''\<rparr>
   \<and> fst (listHotels 2 sampleWorld) = Inl CannotListHotelsError
   \<and> fst (getHotels 2 sampleWorld) = Inl CannotListHotelsError
   \<and> fst (findWithAddressByUserId 1 sampleWorld) =
     Some \<lparr>enrollment_id = 10, enrollment_userId = 1, Address = ''Rua A, 1''\<rparr>
   \<and> fst (listHotels 1 sampleWorld) = Inr ()
   \<and> fst (getHotels 1 sampleWorld) = Inr (hotels (db sampleWorld))"
proof -
  let ?e2 = "\<lparr>enrollment_id = 20, enrollment_userId = 2, Address = ''Rua B, 2''\<rparr>"
  let ?e1 = "\<lparr>enrollment_id = 10, enrollment_userId = 1, Address = ''Rua A, 1''\<rparr>"
  have h2: "fst (findWithAddressByUserId 2 sampleWorld) = Some ?e2"
    by (simp add: repo_defs sample_defs)
  have h1: "fst (findWithAddressByUserId 1 sampleWorld) = Some ?e1"
    by (simp add: repo_defs sample_defs)
  have t2: "\<exists>t. fst (findTicketByEnrollmentId (enrollment_id ?e2) sampleWorld) = Some t
              \<and> (status t = RESERVED \<or> isRemote (TicketType t) \<or> \<not> includesHotel (TicketType t))"
    by (simp add: repo_defs sample_defs)
  have t1: "\<not> (fst (findTicketByEnrollmentId (enrollment_id ?e1) sampleWorld) = None
              \<or> (\<exists>t. fst (findTicketByEnrollmentId (enrollment_id ?e1) sampleWorld) = Some t
                   \<and> (status t = RESERVED \<or> isRemote (TicketType t)
                        \<or> \<not> includesHotel (TicketType t))))"
    by (simp add: repo_defs sample_defs)
  show ?thesis
    using h1 h2 t1 t2
      listHotels_forbidden_iff [OF h2, of 1] listHotels_forbidden_iff [OF h1, of 1]
    by blast
qed

text \<open>
  C3. The activity guard does not read \<open>includesHotel\<close>: with an enrollment, a ticket
  that is not reserved, not remote and without hotel, and a booking, the activity guard
  succeeds, \<open>getActivities\<close> returns a list and \<open>createUserActivity\<close> reaches the
  insertion, while the hotel guard and the three hotel operations fail with
  \<open>CannotListHotelsError\<close>.
\<close>

theorem activity_guard_ignores_includesHotel:
  assumes "fst (findWithAddressByUserId userId w) = Some e"
    and "fst (findTicketByEnrollmentId (enrollment_id e) w) = Some t"
    and "status t \<noteq> RESERVED"
    and "\<not> isRemote (TicketType t)"
    and "\<not> includesHotel (TicketType t)"
    and "fst (findByUserId userId w) = Some b"
  shows "fst (listActivities userId w) = Inr ()
       \<and> (\<exists>xs. fst (getActivities userId w) = Inr xs)
       \<and> createUserActivity userId actId w =
           registerInActivity userId actId (snd (listActivities userId w))
       \<and> fst (listHotels userId w) = Inl CannotListHotelsError
       \<and> fst (getHotels userId w) = Inl CannotListHotelsError
       \<and> fst (getHotelsWithRooms userId hotelId w) = Inl CannotListHotelsError
       \<and> fst (getAllHotelsWithRooms userId w) = Inl CannotListHotelsError"
  using assms
  by (auto simp: listActivities_def getActivities_def createUserActivity_def
      listHotels_def getHotels_def getHotelsWithRooms_def getAllHotelsWithRooms_def
      repo_defs split: option.splits)

theorem activity_guard_ignores_includesHotel_witness:
  "fst (listActivities 2 sampleWorld) = Inr ()
   \<and> (\<exists>xs. fst (getActivities 2 sampleWorld) = Inr xs)
   \<and> createUserActivity 2 7 sampleWorld =
       registerInActivity 2 7 (snd (listActivities 2 sampleWorld))
   \<and> fst (listHotels 2 sampleWorld) = Inl CannotListHotelsError
   \<and> fst (getHotels 2 sampleWorld) = Inl CannotListHotelsError
   \<and> fst (getHotelsWithRooms 2 1 sampleWorld) = Inl CannotListHotelsError
   \<and> fst (getAllHotelsWithRooms 2 sampleWorld) = Inl CannotListHotelsError"
proof -
  let ?e = "\<lparr>enrollment_id = 20, enrollment_userId = 2, Address = ''Rua B, 2''\<rparr>"
  let ?t = "\<lparr>ticket_id = 2, ticket_enrollmentId = 20, status = PAID, ticketTypeId = 2,
             TicketType = \<lparr>ticketType_id = 2, isRemote = False, includesHotel = False,
                            price = 250\<rparr>\<rparr>"
  let ?b = "\<lparr>booking_id = 2, booking_userId = 2, booking_roomId = 200\<rparr>"
  have e: "fst (findWithAddressByUserId 2 sampleWorld) = Some ?e"
    by (simp add: repo_defs sample_defs)
  have t: "fst (findTicketByEnrollmentId (enrollment_id ?e) sampleWorld) = Some ?t"
    by (simp add: repo_defs sample_defs)
  have s: "status ?t \<noteq> RESERVED" "\<not> isRemote (TicketType ?t)" "\<not> includesHotel (TicketType ?t)"
    by simp_all
  have b: "fst (findByUserId 2 sampleWorld) = Some ?b"
    by (simp add: repo_defs sample_defs)
  show ?thesis
    by (rule activity_guard_ignores_includesHotel [OF e t s b])
qed

text \<open>
  C4. For a user without enrollment, each of the five guarded operations fails with
  \<open>NotFoundError\<close>, and the world it leaves is the initial one with the enrollment lookup
  as the only access to the store.
\<close>

theorem no_enrollment_NotFound:
  assumes "fst (findWithAddressByUserId userId w) = None"
  shows "getHotels userId w = (Inl NotFoundError, issue (FindWithAddressByUserId userId) w)
       \<and> getHotelsWithRooms userId hotelId w =
           (Inl NotFoundError, issue (FindWithAddressByUserId userId) w)
       \<and> getAllHotelsWithRooms userId w =
           (Inl NotFoundError, issue (FindWithAddressByUserId userId) w)
       \<and> getActivities userId w = (Inl NotFoundError, issue (FindWithAddressByUserId userId) w)
       \<and> createUserActivity userId actId w =
           (Inl NotFoundError, issue (FindWithAddressByUserId userId) w)"
  using assms
  by (simp add: listActivities_def getActivities_def createUserActivity_def
      listHotels_def getHotels_def getHotelsWithRooms_def getAllHotelsWithRooms_def
      findWithAddressByUserId_def)

theorem no_enrollment_NotFound_witness:
  "fst (findWithAddressByUserId 4 sampleWorld) = None
   \<and> getHotels 4 sampleWorld = (Inl NotFoundError, issue (FindWithAddressByUserId 4) sampleWorld)
   \<and> getHotelsWithRooms 4 1 sampleWorld =
       (Inl NotFoundError, issue (FindWithAddressByUserId 4) sampleWorld)
   \<and> getAllHotelsWithRooms 4 sampleWorld =
       (Inl NotFoundError, issue (FindWithAddressByUserId 4) sampleWorld)
   \<and> getActivities 4 sampleWorld =
       (Inl NotFoundError, issue (FindWithAddressByUserId 4) sampleWorld)
   \<and> createUserActivity 4 7 sampleWorld =
       (Inl NotFoundError, issue (FindWithAddressByUserId 4) sampleWorld)
   \<and> queries (issue (FindWithAddressByUserId 4) sampleWorld) = [FindWithAddressByUserId 4]"
proof -
  have h: "fst (findWithAddressByUserId 4 sampleWorld) = None"
    by (simp add: repo_defs sample_defs)
  have q: "queries (issue (FindWithAddressByUserId 4) sampleWorld) = [FindWithAddressByUserId 4]"
    by (simp add: issue_def sampleWorld_def)
  show ?thesis
    using h q no_enrollment_NotFound [OF h, of 1 7] by simp
qed

text \<open>
  C5. For a user whose enrollment and ticket pass the ticket checks of the activity guard
  but who has no booking, \<open>getActivities\<close> and \<open>createUserActivity\<close> fail with
  \<open>NotFoundError\<close>. The hotel guard checks no booking: its result is the same whatever
  the bookings table holds, and it issues no booking lookup.
\<close>

theorem no_booking_NotFound:
  assumes "fst (findWithAddressByUserId userId w) = Some e"
    and "fst (findTicketByEnrollmentId (enrollment_id e) w) = Some t"
    and "status t \<noteq> RESERVED"
    and "\<not> isRemote (TicketType t)"
    and "fst (findByUserId userId w) = None"
  shows "fst (getActivities userId w) = Inl NotFoundError
       \<and> fst (createUserActivity userId actId w) = Inl NotFoundError
       \<and> fst (listHotels userId (w\<lparr>db := (db w)\<lparr>bookings := bs\<rparr>\<rparr>)) = fst (listHotels userId w)
       \<and> (\<forall>uid. FindByUserId uid
             \<notin> set (drop (length (queries w)) (queries (snd (listHotels userId w)))))"
proof -
  have "fst (listActivities userId w) = Inl NotFoundError"
    using assms by (simp add: listActivities_def repo_defs)
  then have "fst (getActivities userId w) = Inl NotFoundError"
    and "fst (createUserActivity userId actId w) = Inl NotFoundError"
    by (cases "listActivities userId w"; simp add: getActivities_def createUserActivity_def)+
  moreover have "fst (listHotels userId (w\<lparr>db := (db w)\<lparr>bookings := bs\<rparr>\<rparr>))
      = fst (listHotels userId w)"
    by (simp add: listHotels_def repo_defs split: option.splits)
  moreover have "\<forall>uid. FindByUserId uid
      \<notin> set (drop (length (queries w)) (queries (snd (listHotels userId w))))"
    using listHotels_queries [of userId w] by auto
  ultimately show ?thesis
    by simp
qed

theorem no_booking_NotFound_witness:
  "fst (getActivities 3 sampleWorld) = Inl NotFoundError
   \<and> fst (createUserActivity 3 7 sampleWorld) = Inl NotFoundError
   \<and> fst (listHotels 3 (sampleWorld\<lparr>db := (db sampleWorld)\<lparr>bookings := []\<rparr>\<rparr>))
       = fst (listHotels 3 sampleWorld)
   \<and> (\<forall>uid. FindByUserId uid
         \<notin> set (drop (length (queries sampleWorld)) (queries (snd (listHotels 3 sampleWorld)))))
   \<and> fst (listHotels 3 sampleWorld) = Inr ()"
proof -
  let ?e = "\<lparr>enrollment_id = 30, enrollment_userId = 3, Address = ''Rua C, 3''\<rparr>"
  let ?t = "\<lparr>ticket_id = 3, ticket_enrollmentId = 30, status = PAID, ticketTypeId = 1,
             TicketType = \<lparr>ticketType_id = 1, isRemote = False, includesHotel = True,
                            price = 600\<rparr>\<rparr>"
  have e: "fst (findWithAddressByUserId 3 sampleWorld) = Some ?e"
    by (simp add: repo_defs sample_defs)
  have t: "fst (findTicketByEnrollmentId (enrollment_id ?e) sampleWorld) = Some ?t"
    by (simp add: repo_defs sample_defs)
  have s: "status ?t \<noteq> RESERVED" "\<not> isRemote (TicketType ?t)"
    by simp_all
  have b: "fst (findByUserId 3 sampleWorld) = None"
    by (simp add: repo_defs sample_defs)
  have g: "fst (listHotels 3 sampleWorld) = Inr ()"
    by (simp add: listHotels_def repo_defs sample_defs)
  show ?thesis
    using g no_booking_NotFound [OF e t s b, of 7 "[]"] by simp
qed

section \<open>Registering in an activity\<close>




text \<open>
  C7. For an eligible user and an activity id that no activity of the catalog has,
  \<open>createUserActivity\<close> fails with \<open>BadRequestError\<close> and leaves every table as it
  was.
\<close>

theorem createUserActivity_unknown_activity:
  assumes "fst (listActivities userId w) = Inr ()"
    and "\<not> list_ex (\<lambda>a. activity_id a = actId) (activities (db w))"
  shows "fst (createUserActivity userId actId w) = Inl BadRequestError
       \<and> db (snd (createUserActivity userId actId w)) = db w"
proof -
  have g: "db (snd (listActivities userId w)) = db w"
    by (rule listActivities_db)
  show ?thesis
    using assms(2)
    by (simp add: createUserActivity_eligible [OF assms(1)] g registerInActivity_db_cases issue_def)
qed

theorem createUserActivity_unknown_activity_witness:
  "fst (listActivities 1 sampleWorld) = Inr ()
   \<and> \<not> list_ex (\<lambda>a. activity_id a = 589375489347683) (activities (db sampleWorld))
   \<and> fst (createUserActivity 1 589375489347683 sampleWorld) = Inl BadRequestError
   \<and> userActivities (db (snd (createUserActivity 1 589375489347683 sampleWorld)))
       = userActivities (db sampleWorld)"
proof -
  have h: "fst (listActivities 1 sampleWorld) = Inr ()"
    by (simp add: listActivities_def repo_defs sample_defs)
  have a: "\<not> list_ex (\<lambda>a. activity_id a = 589375489347683) (activities (db sampleWorld))"
    by (simp add: sample_defs)
  show ?thesis
    using h a createUserActivity_unknown_activity [OF h a] by simp
qed

section \<open>The hotel catalog\<close>

text \<open>
  C8. For a user who passes the hotel guard and a hotel id that fits the 32-bit id column,
  \<open>getHotelsWithRooms\<close> fails with \<open>NotFoundError\<close> when no hotel has the given id;
  when one has, it returns that hotel of the store, with the rooms of the store that
  belong to it. For an id that does not fit the column, no hotel has the id and yet the
  error is not \<open>NotFoundError\<close>: the error of the store's client reaches the caller.
\<close>

theorem getHotelsWithRooms_result:
  assumes "fst (listHotels userId w) = Inr ()"
  shows "(inIntRange hotelId \<and> \<not> list_ex (\<lambda>h. hotel_id h = hotelId) (hotels (db w)) \<longrightarrow>
            fst (getHotelsWithRooms userId hotelId w) = Inl NotFoundError)
       \<and> (inIntRange hotelId \<and> list_ex (\<lambda>h. hotel_id h = hotelId) (hotels (db w)) \<longrightarrow>
            (\<exists>r. fst (getHotelsWithRooms userId hotelId w) = Inr r
                \<and> hotel.truncate r \<in> set (hotels (db w))
                \<and> hotel_id r = hotelId
                \<and> Rooms r = filter (\<lambda>x. room_hotelId x = hotelId) (rooms (db w))))
       \<and> (\<not> inIntRange hotelId \<longrightarrow>
            fst (getHotelsWithRooms userId hotelId w) = Inl ValueOutOfRangeError)"
proof (cases "inIntRange hotelId")
  case False
  then show ?thesis
    using getHotelsWithRooms_eligible [OF assms, of hotelId] by simp
next
  case True
  note r = getHotelsWithRooms_eligible [OF assms, of hotelId]
  show ?thesis
  proof (cases "find (\<lambda>h. hotel_id h = hotelId) (hotels (db w))")
    case None
    then have "\<not> list_ex (\<lambda>h. hotel_id h = hotelId) (hotels (db w))"
      by (simp add: find_None_list_ex)
    moreover have "fst (getHotelsWithRooms userId hotelId w) = Inl NotFoundError"
      using r True None by simp
    ultimately show ?thesis
      using True by simp
  next
    case (Some h)
    then have h: "h \<in> set (hotels (db w))" "hotel_id h = hotelId"
      using find_Some_first [of "\<lambda>h. hotel_id h = hotelId" "hotels (db w)" h] by simp_all
    have t: "hotel.truncate (includeRooms (db w) h) = h"
      by (cases h) (simp add: includeRooms_def hotel.defs hotelWithRooms.defs)
    have "fst (getHotelsWithRooms userId hotelId w) = Inr (includeRooms (db w) h)"
      using r True Some by simp
    moreover have "hotel_id (includeRooms (db w) h) = hotelId"
      and "Rooms (includeRooms (db w) h)
             = filter (\<lambda>x. room_hotelId x = hotelId) (rooms (db w))"
      using h(2) by (simp_all add: includeRooms_def hotel.defs hotelWithRooms.defs)
    moreover have "list_ex (\<lambda>h. hotel_id h = hotelId) (hotels (db w))"
      using h by (auto simp: list_ex_iff)
    ultimately show ?thesis
      using h(1) t True by simp
  qed
qed

theorem getHotelsWithRooms_result_witness:
  "fst (listHotels 1 sampleWorld) = Inr ()
   \<and> inIntRange 3 \<and> \<not> list_ex (\<lambda>h. hotel_id h = 3) (hotels (db sampleWorld))
   \<and> fst (getHotelsWithRooms 1 3 sampleWorld) = Inl NotFoundError
   \<and> inIntRange 1 \<and> list_ex (\<lambda>h. hotel_id h = 1) (hotels (db sampleWorld))
   \<and> (\<exists>r. fst (getHotelsWithRooms 1 1 sampleWorld) = Inr r
          \<and> hotel.truncate r \<in> set (hotels (db sampleWorld))
          \<and> hotel_id r = 1
          \<and> Rooms r = filter (\<lambda>x. room_hotelId x = 1) (rooms (db sampleWorld)))
   \<and> \<not> inIntRange 2147483648
   \<and> fst (getHotelsWithRooms 1 2147483648 sampleWorld) = Inl ValueOutOfRangeError"
proof -
  have h: "fst (listHotels 1 sampleWorld) = Inr ()"
    by (simp add: listHotels_def repo_defs sample_defs)
  have a: "inIntRange 3" "\<not> list_ex (\<lambda>h. hotel_id h = 3) (hotels (db sampleWorld))"
    by (simp_all add: inIntRange_def sample_defs)
  have b: "inIntRange 1" "list_ex (\<lambda>h. hotel_id h = 1) (hotels (db sampleWorld))"
    by (simp_all add: inIntRange_def sample_defs)
  have c: "\<not> inIntRange 2147483648"
    by (simp add: inIntRange_def)
  show ?thesis
    using h a b c getHotelsWithRooms_result [OF h, of 3] getHotelsWithRooms_result [OF h, of 1]
      getHotelsWithRooms_result [OF h, of 2147483648]
    by blast
qed

text \<open>
  User 1 of the sample store passes the hotel guard and no hotel has the id 2147483648, which does
  not fit the column: the call fails, but not with \<open>NotFoundError\<close>.
\<close>

theorem getHotelsWithRooms_out_of_range_counterexample:
  "fst (listHotels 1 sampleWorld) = Inr ()
   \<and> 2147483648 \<notin> hotel_id ` set (hotels (db sampleWorld))
   \<and> fst (getHotelsWithRooms 1 2147483648 sampleWorld) \<noteq> Inl NotFoundError"
  by (simp add: getHotelsWithRooms_def findRoomsByHotelId_def inIntRange_def listHotels_def
      findWithAddressByUserId_def findTicketByEnrollmentId_def issue_def sample_defs)

text \<open>
  C9. The three hotel operations write nothing: the tables after a call are the tables
  before it. So the same call on the world the first call leaves, or on any world with the
  same tables, returns the same result.
\<close>

theorem hotel_operations_read_only:
  "db (snd (getHotels userId w)) = db w
   \<and> db (snd (getHotelsWithRooms userId hotelId w)) = db w
   \<and> db (snd (getAllHotelsWithRooms userId w)) = db w
   \<and> fst (getHotels userId (snd (getHotels userId w))) = fst (getHotels userId w)
   \<and> fst (getHotelsWithRooms userId hotelId (snd (getHotelsWithRooms userId hotelId w)))
       = fst (getHotelsWithRooms userId hotelId w)
   \<and> fst (getAllHotelsWithRooms userId (snd (getAllHotelsWithRooms userId w)))
       = fst (getAllHotelsWithRooms userId w)
   \<and> (db w' = db w \<longrightarrow>
        fst (getHotels userId w') = fst (getHotels userId w)
        \<and> fst (getHotelsWithRooms userId hotelId w') = fst (getHotelsWithRooms userId hotelId w)
        \<and> fst (getAllHotelsWithRooms userId w') = fst (getAllHotelsWithRooms userId w))"
proof -
  have same: "db (snd (getHotels userId w)) = db w"
    "db (snd (getHotelsWithRooms userId hotelId w)) = db w"
    "db (snd (getAllHotelsWithRooms userId w)) = db w"
    by (rule getHotels_db getHotelsWithRooms_db getAllHotelsWithRooms_db)+
  have again: "fst (getHotels userId (snd (getHotels userId w))) = fst (getHotels userId w)"
    "fst (getHotelsWithRooms userId hotelId (snd (getHotelsWithRooms userId hotelId w)))
       = fst (getHotelsWithRooms userId hotelId w)"
    "fst (getAllHotelsWithRooms userId (snd (getAllHotelsWithRooms userId w)))
       = fst (getAllHotelsWithRooms userId w)"
    by (rule getHotels_fst_db getHotelsWithRooms_fst_db getAllHotelsWithRooms_fst_db,
        rule same)+
  have any: "fst (getHotels userId w') = fst (getHotels userId w)
        \<and> fst (getHotelsWithRooms userId hotelId w') = fst (getHotelsWithRooms userId hotelId w)
        \<and> fst (getAllHotelsWithRooms userId w') = fst (getAllHotelsWithRooms userId w)"
    if "db w' = db w"
    by (intro conjI getHotels_fst_db getHotelsWithRooms_fst_db getAllHotelsWithRooms_fst_db that)
  show ?thesis
    by (intro conjI impI same again any)
qed

theorem hotel_operations_read_only_witness:
  "db (snd (getHotels 1 sampleWorld)) = sampleStore
   \<and> db (snd (getHotelsWithRooms 1 2 sampleWorld)) = sampleStore
   \<and> db (snd (getAllHotelsWithRooms 1 sampleWorld)) = sampleStore
   \<and> fst (getHotels 1 (snd (getHotels 1 sampleWorld))) = Inr (hotels sampleStore)
   \<and> fst (getHotels 1 (sampleWorld\<lparr>queries := [FindHotels]\<rparr>)) = Inr (hotels sampleStore)"
proof -
  let ?w' = "sampleWorld\<lparr>queries := [FindHotels]\<rparr>"
  have d: "db sampleWorld = sampleStore"
    by (simp add: sampleWorld_def)
  have d': "db ?w' = db sampleWorld"
    by simp
  have r: "fst (getHotels 1 sampleWorld) = Inr (hotels sampleStore)"
    by (simp add: getHotels_def listHotels_def repo_defs sample_defs)
  note t = hotel_operations_read_only [of 1 sampleWorld 2 ?w']
  have "fst (getHotels 1 ?w') = fst (getHotels 1 sampleWorld)"
    using t d' by blast
  moreover have "fst (getHotels 1 (snd (getHotels 1 sampleWorld))) = fst (getHotels 1 sampleWorld)"
    using t by blast
  moreover have "db (snd (getHotels 1 sampleWorld)) = db sampleWorld"
    "db (snd (getHotelsWithRooms 1 2 sampleWorld)) = db sampleWorld"
    "db (snd (getAllHotelsWithRooms 1 sampleWorld)) = db sampleWorld"
    using t by blast+
  ultimately show ?thesis
    by (simp only: d r simp_thms)
qed

end
